theory Spec2Isabelle
  imports Main
begin

section \<open>JavaScript values used by the command engine\<close>

text \<open>
  A value that is a string, \<^verbatim>\<open>null\<close> or \<^verbatim>\<open>undefined\<close>: the \<^verbatim>\<open>name\<close> of a response
  (\<^verbatim>\<open>null\<close> in \<^verbatim>\<open>ERR_NOCMD\<close>), the result of \<^verbatim>\<open>args[0]\<close> and \<^verbatim>\<open>name[0]\<close>
  (\<^verbatim>\<open>undefined\<close> on an empty array), the \<^verbatim>\<open>device\<close> of the configuration.
\<close>

datatype js_str = Null | Undefined | Str string

text \<open>What a template literal \<^verbatim>\<open>`${v}`\<close> prints for such a value.\<close>

fun template :: "js_str \<Rightarrow> string" where
  "template Null = ''null''"
| "template Undefined = ''undefined''"
| "template (Str s) = s"

text \<open>\<^verbatim>\<open>xs[0]\<close> on an array of strings.\<close>

fun index0 :: "string list \<Rightarrow> js_str" where
  "index0 [] = Undefined"
| "index0 (x # xs) = Str x"

text \<open>\<^verbatim>\<open>Array.prototype.join\<close> on an array of strings.\<close>

fun join_str :: "string \<Rightarrow> string list \<Rightarrow> string" where
  "join_str sep [] = []"
| "join_str sep [x] = x"
| "join_str sep (x # y # ys) = x @ sep @ join_str sep (y # ys)"

text \<open>
  \<^verbatim>\<open>String.prototype.split\<close> with a one-character separator: the pieces between the
  separators, empty pieces kept; the empty string gives one empty piece.
\<close>

fun split_str :: "char \<Rightarrow> string \<Rightarrow> string list" where
  "split_str sep [] = [[]]"
| "split_str sep (c # cs) =
     (if c = sep then [] # split_str sep cs
      else (case split_str sep cs of
              [] \<Rightarrow> [[c]]
            | t # ts \<Rightarrow> (c # t) # ts))"

section \<open>Parameters, commands and responses\<close>

text \<open>
  The typedef \<^verbatim>\<open>Param\<close> is \<^verbatim>\<open>{name, type, required}\<close>; the first two fields are
  prefixed here, since a response and a command have a \<^verbatim>\<open>name\<close> too.
\<close>

record Param =
  p_name :: string
  p_type :: string
  required :: bool

text \<open>
  \<^verbatim>\<open>CommandParamaters.toSting\<close>: the loop pushes one rendered parameter per iteration
  onto \<^verbatim>\<open>array\<close>, and the array is joined with a space.
\<close>

fun toSting_loop :: "Param list \<Rightarrow> string list \<Rightarrow> string list" where
  "toSting_loop [] array = array"
| "toSting_loop (param # rest) array =
     toSting_loop rest
       (array @ [join_str []
          (if required param
           then [''<'', p_name param, '': '', p_type param, ''>'']
           else [''['', p_name param, '': '', p_type param, '']''])])"

definition toSting :: "Param list \<Rightarrow> string" where
  "toSting params = join_str '' '' (toSting_loop params [])"

text \<open>\<^verbatim>\<open>CommandResponse\<close> and \<^verbatim>\<open>Command.genResponse\<close>, \<^verbatim>\<open>Command.ERR_NOCMD\<close>.\<close>

record CommandResponse =
  name :: js_str
  status :: int
  data :: "string list"

definition genResponse :: "js_str \<Rightarrow> int \<Rightarrow> string list \<Rightarrow> CommandResponse" where
  "genResponse nm st d = \<lparr>name = nm, status = st, data = d\<rparr>"

definition ERR_NOCMD :: CommandResponse where
  "ERR_NOCMD = genResponse Null 1 [''Error: No Command'']"

text \<open>
  A command holds its names (the first is the primary one), its handler and its
  parameters. The handlers of the source are closures over the process-wide
  \<^verbatim>\<open>CommandManager\<close>; a command stores which handler it has, and \<open>run_handler\<close> below
  gives each one its body.
\<close>

datatype handler =
    HelpHandler | QuitHandler | SerialSetHandler
  | SerialCloseHandler | SerialOpenHandler | SerialWriteHandler

record Command =
  cmd_name :: "string list"
  cmd_handler :: handler
  cmd_params :: "Param list"

text \<open>\<^verbatim>\<open>Command.toString\<close>.\<close>

definition toString :: "Command \<Rightarrow> string" where
  "toString c = join_str '' '' [join_str ''/'' (cmd_name c), toSting (cmd_params c)]"

section \<open>The registry\<close>

text \<open>
  \<^verbatim>\<open>CommandManager.COMMANDS\<close> is an object used as a dictionary: an association list in
  the order in which \<^verbatim>\<open>Object.keys\<close> lists its keys. That order is the keys that are
  array indices first, by ascending value, and then the other keys in the order of their
  creation.
\<close>

type_synonym registry = "(string \<times> Command) list"

fun getCommand :: "string \<Rightarrow> registry \<Rightarrow> Command option" where
  "getCommand nm [] = None"
| "getCommand nm ((k, c) # rest) =
     (if nm \<in> set (cmd_name c) then Some c else getCommand nm rest)"

text \<open>
  An array index is the canonical decimal numeral of a number up to \<open>2\<^sup>3\<^sup>2 - 2\<close>: digits
  only, and no leading zero but in \<^verbatim>\<open>0\<close> itself.
\<close>

definition digit_of :: "char \<Rightarrow> nat option" where
  "digit_of c =
     map_of [(CHR ''0'', 0), (CHR ''1'', 1), (CHR ''2'', 2), (CHR ''3'', 3), (CHR ''4'', 4),
             (CHR ''5'', 5), (CHR ''6'', 6), (CHR ''7'', 7), (CHR ''8'', 8), (CHR ''9'', 9)] c"

fun decimal :: "string \<Rightarrow> nat \<Rightarrow> nat option" where
  "decimal [] n = Some n"
| "decimal (c # cs) n =
     (case digit_of c of None \<Rightarrow> None | Some d \<Rightarrow> decimal cs (10 * n + d))"

definition array_index :: "string \<Rightarrow> nat option" where
  "array_index k =
     (case k of
        [] \<Rightarrow> None
      | c # cs \<Rightarrow>
          (if c = CHR ''0'' \<and> cs \<noteq> [] then None
           else (case decimal k 0 of
                   None \<Rightarrow> None
                 | Some n \<Rightarrow> if n \<le> 4294967294 then Some n else None)))"

text \<open>A new key \<open>k\<close> is listed before an existing key \<open>k'\<close>.\<close>

definition listed_before :: "string \<Rightarrow> string \<Rightarrow> bool" where
  "listed_before k k' =
     (case array_index k of
        None \<Rightarrow> False
      | Some i \<Rightarrow> (case array_index k' of None \<Rightarrow> True | Some j \<Rightarrow> i < j))"

text \<open>
  \<^verbatim>\<open>COMMANDS[key] = command\<close>: an existing key keeps its place; a new key that is an
  array index goes before the first key it is listed before; any other new key goes last.
\<close>

fun assign :: "string \<Rightarrow> Command \<Rightarrow> registry \<Rightarrow> registry" where
  "assign k c [] = [(k, c)]"
| "assign k c ((k', c') # rest) =
     (if k' = k then (k, c) # rest
      else if listed_before k k' then (k, c) # (k', c') # rest
      else (k', c') # assign k c rest)"

text \<open>
  \<^verbatim>\<open>CommandManager.registerCommand\<close>. The key is \<^verbatim>\<open>command.name[0]\<close>, as a string: for a
  command with no name it is \<^verbatim>\<open>undefined\<close>. An assignment to the key \<^verbatim>\<open>__proto__\<close> sets
  the prototype of the object and adds no key.
\<close>

definition registerCommand :: "Command \<Rightarrow> registry \<Rightarrow> registry" where
  "registerCommand command reg =
     (let key = template (index0 (cmd_name command))
      in if key = ''__proto__'' then reg else assign key command reg)"

text \<open>
  What interrupts a call: a \<^verbatim>\<open>TypeError\<close> (a property read on \<^verbatim>\<open>undefined\<close>), or
  \<^verbatim>\<open>process.exit\<close>.
\<close>

datatype abrupt = TypeError | ProcessExit int

fun getNames_loop :: "string list \<Rightarrow> registry \<Rightarrow> string list \<Rightarrow> abrupt + string list" where
  "getNames_loop [] reg names = Inr names"
| "getNames_loop (cmd # cmds) reg names =
     (case getCommand cmd reg of
        None \<Rightarrow> Inl TypeError
      | Some c \<Rightarrow> getNames_loop cmds reg (names @ cmd_name c))"

definition getNames :: "bool \<Rightarrow> registry \<Rightarrow> abrupt + string list" where
  "getNames primary_only reg =
     (if primary_only then Inr (map fst reg)
      else getNames_loop (map fst reg) reg [])"

section \<open>The state of the process\<close>

text \<open>
  The transport is the \<^verbatim>\<open>serialport\<close> package that \<^verbatim>\<open>index.js\<close> requires, outside the
  program: a handle is the options it was constructed with, and every call on it is
  recorded in a trace. The calls \<^verbatim>\<open>open\<close>, \<^verbatim>\<open>on\<close>, \<^verbatim>\<open>close\<close> and \<^verbatim>\<open>write\<close> return;
  what the transport does later is an event of a run, below.
\<close>

record SerialPort =
  path :: js_str
  baudRate :: nat
  autoOpen :: bool

text \<open>
  The constructor of the package, called with \<^verbatim>\<open>{path, baudRate, autoOpen}\<close>: it throws
  a \<^verbatim>\<open>TypeError\<close> when the path is missing or is the empty string, and returns the
  handle otherwise (the baud rate is a number at both calls of the program).
\<close>

definition new_SerialPort :: "js_str \<Rightarrow> nat \<Rightarrow> bool \<Rightarrow> abrupt + SerialPort" where
  "new_SerialPort p b a =
     (case p of
        Str (c # cs) \<Rightarrow> Inr \<lparr>path = p, baudRate = b, autoOpen = a\<rparr>
      | _ \<Rightarrow> Inl TypeError)"

record Config =
  init :: bool
  ready :: bool
  device :: js_str
  port :: SerialPort

text \<open>
  A listener is a function of the caller, as the response callback is: it is known by its
  identity, a call of it is recorded in the trace, and it returns. The data passed to a
  hook is an array of strings, or (in the write command) a string.
\<close>

datatype listener = Listener nat

datatype hook_data = DataArray "string list" | DataString string

record Hook =
  hook :: string
  callback :: listener

text \<open>
  The calls that leave the engine, in the order they are made: on the transport, on a
  hook's listener, on the response callback.
\<close>

datatype effect =
    NewSerialPort SerialPort
  | PortOpen SerialPort
  | PortOn SerialPort string
  | PortClose SerialPort
  | PortWrite SerialPort string
  | HookCall listener hook_data
  | Callback CommandResponse

text \<open>
  The callbacks handed to \<^verbatim>\<open>port.open\<close> and \<^verbatim>\<open>port.write\<close>, which the transport calls
  later: each keeps the \<^verbatim>\<open>name\<close> and the \<^verbatim>\<open>args\<close> or \<^verbatim>\<open>msg\<close> of its invocation.
\<close>

datatype pending_cb = OpenCallback js_str "string list" | WriteCallback js_str string

record World =
  COMMANDS :: registry
  HOOKS :: "Hook list"
  config :: Config
  pending :: "pending_cb list"
  trace :: "effect list"

definition emit :: "effect \<Rightarrow> World \<Rightarrow> World" where
  "emit e w = w\<lparr>trace := trace w @ [e]\<rparr>"

text \<open>\<^verbatim>\<open>callback(response)\<close>.\<close>

definition respond :: "CommandResponse \<Rightarrow> World \<Rightarrow> World" where
  "respond r w = emit (Callback r) w"

section \<open>The hook bus\<close>

definition onEvent :: "string \<Rightarrow> listener \<Rightarrow> World \<Rightarrow> World" where
  "onEvent event cb w = w\<lparr>HOOKS := HOOKS w @ [\<lparr>hook = event, callback = cb\<rparr>]\<rparr>"

fun fireHook_loop :: "string \<Rightarrow> hook_data \<Rightarrow> Hook list \<Rightarrow> effect list" where
  "fireHook_loop nm d [] = []"
| "fireHook_loop nm d (h # hs) =
     (if hook h = nm then HookCall (callback h) d # fireHook_loop nm d hs
      else fireHook_loop nm d hs)"

definition fireHook :: "string \<Rightarrow> hook_data \<Rightarrow> World \<Rightarrow> World" where
  "fireHook nm d w = w\<lparr>trace := trace w @ fireHook_loop nm d (HOOKS w)\<rparr>"

section \<open>The handlers\<close>

fun HelpCommand_loop :: "string list \<Rightarrow> registry \<Rightarrow> string list \<Rightarrow> abrupt + string list" where
  "HelpCommand_loop [] reg res = Inr res"
| "HelpCommand_loop (nm # nms) reg res =
     (case getCommand nm reg of
        None \<Rightarrow> Inl TypeError
      | Some c \<Rightarrow>
          HelpCommand_loop nms reg (res @ [''- Usage for '' @ nm @ '': '' @ toString c]))"

definition HelpCommand_handler :: "js_str \<Rightarrow> World \<Rightarrow> string list \<Rightarrow> abrupt + World" where
  "HelpCommand_handler nm w args =
     (case index0 args of
        Str a \<Rightarrow>
          (case getCommand a (COMMANDS w) of
             None \<Rightarrow> Inl TypeError
           | Some c \<Rightarrow>
               Inr (respond \<lparr>name = nm, status = 0,
                             data = [''Usage for '' @ a @ '': '' @ toString c]\<rparr> w))
      | _ \<Rightarrow>
          (case getNames True (COMMANDS w) of
             Inl e \<Rightarrow> Inl e
           | Inr names \<Rightarrow>
               (case HelpCommand_loop names (COMMANDS w) [] of
                  Inl e \<Rightarrow> Inl e
                | Inr res \<Rightarrow> Inr (respond \<lparr>name = nm, status = 0, data = res\<rparr> w))))"

definition QuitCommand_handler :: "js_str \<Rightarrow> World \<Rightarrow> string list \<Rightarrow> abrupt + World" where
  "QuitCommand_handler nm w args = Inl (ProcessExit 0)"

text \<open>
  The set handler writes \<^verbatim>\<open>device\<close> and \<^verbatim>\<open>init\<close> and then constructs the handle. When
  the constructor throws, nothing catches the error: the call ends there, before the
  hook and the response.
\<close>

definition SerialSetCommand_handler :: "js_str \<Rightarrow> World \<Rightarrow> string list \<Rightarrow> abrupt + World" where
  "SerialSetCommand_handler nm w args =
     (let w1 = w\<lparr>config := (config w)\<lparr>device := index0 args, init := True\<rparr>\<rparr>
      in case new_SerialPort (index0 args) 9600 False of
           Inl e \<Rightarrow> Inl e
         | Inr p \<Rightarrow>
             (let w2 = emit (NewSerialPort p) (w1\<lparr>config := (config w1)\<lparr>port := p\<rparr>\<rparr>);
                  w3 = fireHook ''set'' (DataArray args) w2
              in Inr (respond \<lparr>name = nm, status = 0,
                        data = [''Set serial device to ['' @ template (index0 args) @ '']'']\<rparr> w3)))"

definition SerialCloseCommand_handler :: "js_str \<Rightarrow> World \<Rightarrow> string list \<Rightarrow> abrupt + World" where
  "SerialCloseCommand_handler nm w args =
     (if init (config w) = False \<or> ready (config w) = False
      then Inr (respond \<lparr>name = nm, status = 2, data = [''Already closed!'']\<rparr> w)
      else
        (let w1 = w\<lparr>config := (config w)\<lparr>ready := False, init := False\<rparr>\<rparr>;
             w2 = emit (PortClose (port (config w1))) w1;
             w3 = fireHook ''close'' (DataArray []) w2
         in Inr (respond \<lparr>name = nm, status = 0,
                   data = [''Closed serial device connection to ['' @ template (device (config w3))
                           @ '']. Please run set and start again!'']\<rparr> w3)))"

definition SerialOpenCommand_handler :: "js_str \<Rightarrow> World \<Rightarrow> string list \<Rightarrow> abrupt + World" where
  "SerialOpenCommand_handler nm w args =
     (if init (config w) = False
      then Inr (respond \<lparr>name = nm, status = 2, data = [''No serial device set!'']\<rparr> w)
      else if ready (config w) = True
      then Inr (respond \<lparr>name = nm, status = 2, data = [''Already started!'']\<rparr> w)
      else
        (let w1 = emit (PortOpen (port (config w))) (w\<lparr>pending := pending w @ [OpenCallback nm args]\<rparr>);
             w2 = emit (PortOn (port (config w1)) ''error'') w1;
             w3 = emit (PortOn (port (config w2)) ''data'') w2
         in Inr w3))"

text \<open>The function given to \<^verbatim>\<open>port.open\<close>; \<open>err\<close> is the message of the error, if any.\<close>

definition openCallback :: "js_str \<Rightarrow> string list \<Rightarrow> string option \<Rightarrow> World \<Rightarrow> World" where
  "openCallback nm args err w =
     (case err of
        Some message \<Rightarrow>
          respond \<lparr>name = nm, status = 1, data = [''Error on connection!'', message]\<rparr> w
      | None \<Rightarrow>
          (let w1 = w\<lparr>config := (config w)\<lparr>ready := True\<rparr>\<rparr>;
               w2 = fireHook ''open'' (DataArray args) w1
           in respond \<lparr>name = nm, status = 0,
                 data = [''Connection to ['' @ template (device (config w2)) @ ''] opened!'']\<rparr> w2))"

text \<open>The listeners given to \<^verbatim>\<open>port.on\<close> for the transport's events.\<close>

definition onPortError :: "string \<Rightarrow> World \<Rightarrow> World" where
  "onPortError message w = fireHook ''error'' (DataArray [message]) w"

definition onPortData :: "string \<Rightarrow> World \<Rightarrow> World" where
  "onPortData d w = fireHook ''read'' (DataArray [d]) w"

definition SerialWriteCommand_handler :: "js_str \<Rightarrow> World \<Rightarrow> string list \<Rightarrow> abrupt + World" where
  "SerialWriteCommand_handler nm w args =
     (if init (config w) = False \<or> ready (config w) = False
      then Inr (respond \<lparr>name = nm, status = 2, data = [''Not ready!'']\<rparr> w)
      else
        (let msg = join_str '' '' args
         in Inr (emit (PortWrite (port (config w)) msg)
                   (w\<lparr>pending := pending w @ [WriteCallback nm msg]\<rparr>))))"

text \<open>The function given to \<^verbatim>\<open>port.write\<close>.\<close>

definition writeCallback :: "js_str \<Rightarrow> string \<Rightarrow> string option \<Rightarrow> World \<Rightarrow> World" where
  "writeCallback nm msg err w =
     (case err of
        Some message \<Rightarrow>
          respond \<lparr>name = nm, status = 1, data = [''Error on send!'', message]\<rparr> w
      | None \<Rightarrow>
          (let w1 = fireHook ''write'' (DataString msg) w
           in respond \<lparr>name = nm, status = 0, data = [''Message ['' @ msg @ ''] sent!'']\<rparr> w1))"

fun run_handler :: "handler \<Rightarrow> js_str \<Rightarrow> World \<Rightarrow> string list \<Rightarrow> abrupt + World" where
  "run_handler HelpHandler = HelpCommand_handler"
| "run_handler QuitHandler = QuitCommand_handler"
| "run_handler SerialSetHandler = SerialSetCommand_handler"
| "run_handler SerialCloseHandler = SerialCloseCommand_handler"
| "run_handler SerialOpenHandler = SerialOpenCommand_handler"
| "run_handler SerialWriteHandler = SerialWriteCommand_handler"

section \<open>Dispatch\<close>

text \<open>
  \<^verbatim>\<open>Command.process\<close> calls the stored handler with the primary name. \<open>invoke\<close> is what
  calling a handler does; the program's is \<open>run_handler\<close>.
\<close>

definition Command_process ::
  "(handler \<Rightarrow> js_str \<Rightarrow> World \<Rightarrow> string list \<Rightarrow> abrupt + World) \<Rightarrow>
   Command \<Rightarrow> World \<Rightarrow> string list \<Rightarrow> abrupt + World" where
  "Command_process invoke c w params = invoke (cmd_handler c) (index0 (cmd_name c)) w params"

text \<open>
  \<^verbatim>\<open>CommandManager.process\<close>. \<^verbatim>\<open>line.split(" ")\<close> is never empty; on an empty array
  \<^verbatim>\<open>cmd\<close> would be \<^verbatim>\<open>undefined\<close>, which no list of names includes.
\<close>

definition process_with ::
  "(handler \<Rightarrow> js_str \<Rightarrow> World \<Rightarrow> string list \<Rightarrow> abrupt + World) \<Rightarrow>
   string \<Rightarrow> World \<Rightarrow> abrupt + World" where
  "process_with invoke line w =
     (let cmd = index0 (split_str CHR '' '' line);
          params = tl (split_str CHR '' '' line)
      in case getNames False (COMMANDS w) of
           Inl e \<Rightarrow> Inl e
         | Inr names \<Rightarrow>
             (case cmd of
                Str c \<Rightarrow>
                  (if c \<notin> set names then Inr (respond ERR_NOCMD w)
                   else (case getCommand c (COMMANDS w) of
                           None \<Rightarrow> Inl TypeError
                         | Some command \<Rightarrow> Command_process invoke command w params))
              | _ \<Rightarrow> Inr (respond ERR_NOCMD w)))"

definition process :: "string \<Rightarrow> World \<Rightarrow> abrupt + World" where
  "process line w = process_with run_handler line w"

section \<open>The built-in commands and the initial state\<close>

definition HelpCommand :: Command where
  "HelpCommand = \<lparr>cmd_name = [''help'', ''h''], cmd_handler = HelpHandler,
     cmd_params = [\<lparr>p_name = ''command'', p_type = ''string'', required = False\<rparr>]\<rparr>"

definition QuitCommand :: Command where
  "QuitCommand = \<lparr>cmd_name = [''quit'', ''q'', ''exit''], cmd_handler = QuitHandler,
     cmd_params = []\<rparr>"

definition SerialSetCommand :: Command where
  "SerialSetCommand = \<lparr>cmd_name = [''set''], cmd_handler = SerialSetHandler,
     cmd_params = [\<lparr>p_name = ''device'', p_type = ''string'', required = True\<rparr>]\<rparr>"

definition SerialCloseCommand :: Command where
  "SerialCloseCommand = \<lparr>cmd_name = [''close'', ''stop''], cmd_handler = SerialCloseHandler,
     cmd_params = []\<rparr>"

definition SerialOpenCommand :: Command where
  "SerialOpenCommand = \<lparr>cmd_name = [''open'', ''start''], cmd_handler = SerialOpenHandler,
     cmd_params = []\<rparr>"

definition SerialWriteCommand :: Command where
  "SerialWriteCommand = \<lparr>cmd_name = [''write'', ''w'', ''send''], cmd_handler = SerialWriteHandler,
     cmd_params = [\<lparr>p_name = ''message'', p_type = ''string'', required = True\<rparr>]\<rparr>"

text \<open>The six registrations at the end of the module, in their order.\<close>

definition BUILTIN :: registry where
  "BUILTIN =
     registerCommand SerialWriteCommand
       (registerCommand SerialOpenCommand
         (registerCommand SerialCloseCommand
           (registerCommand SerialSetCommand
             (registerCommand QuitCommand
               (registerCommand HelpCommand [])))))"

text \<open>
  The state after \<^verbatim>\<open>index.js\<close> has run: its \<^verbatim>\<open>config\<close>, and its one listener, on
  \<^verbatim>\<open>read\<close>.
\<close>

definition initial_config :: Config where
  "initial_config = \<lparr>init = False, ready = False, device = Str [],
     port = \<lparr>path = Str ''COM1'', baudRate = 0, autoOpen = False\<rparr>\<rparr>"

definition initial_world :: World where
  "initial_world = onEvent ''read'' (Listener 0)
     \<lparr>COMMANDS = BUILTIN, HOOKS = [], config = initial_config, pending = [], trace = []\<rparr>"

section \<open>Runs of the process\<close>

text \<open>
  What happens to the process, one turn of the event loop at a time: a line arrives; the
  transport completes the pending callback at a position, with an error message or
  without (a callback is called once); the transport calls a listener that \<^verbatim>\<open>open\<close>
  gave to \<^verbatim>\<open>port.on\<close>, for an error or for data; a listener subscribes to a hook.
\<close>

datatype event =
    Line string
  | Completes nat "string option"
  | EmitsError string
  | EmitsData string
  | Subscribes string listener

fun complete :: "pending_cb \<Rightarrow> string option \<Rightarrow> World \<Rightarrow> World" where
  "complete (OpenCallback nm args) err w = openCallback nm args err w"
| "complete (WriteCallback nm msg) err w = writeCallback nm msg err w"

fun step :: "event \<Rightarrow> World \<Rightarrow> abrupt + World" where
  "step (Line line) w = process line w"
| "step (Completes i err) w =
     (if i < length (pending w)
      then Inr (complete (pending w ! i) err
                  (w\<lparr>pending := take i (pending w) @ drop (Suc i) (pending w)\<rparr>))
      else Inr w)"
| "step (EmitsError message) w = Inr (onPortError message w)"
| "step (EmitsData d) w = Inr (onPortData d w)"
| "step (Subscribes ev cb) w = Inr (onEvent ev cb w)"

fun run :: "event list \<Rightarrow> World \<Rightarrow> abrupt + World" where
  "run [] w = Inr w"
| "run (e # es) w = (case step e w of Inl a \<Rightarrow> Inl a | Inr w' \<Rightarrow> run es w')"

text \<open>
  The invariant of the connection context: \<^verbatim>\<open>ready == true\<close> implies
  \<^verbatim>\<open>initialized == true\<close>.
\<close>

definition invariant :: "Config \<Rightarrow> bool" where
  "invariant c = (ready c \<longrightarrow> init c)"

text \<open>A sequence of \<^verbatim>\<open>onEvent\<close> calls, one per pair, in order.\<close>

definition subscribe_all :: "(string \<times> listener) list \<Rightarrow> World \<Rightarrow> World" where
  "subscribe_all subs w = foldl (\<lambda>w' (ev, cb). onEvent ev cb w') w subs"

text \<open>What is read off the result of a run: the two flags of the context, and the trace.\<close>

definition flags :: "abrupt + World \<Rightarrow> (bool \<times> bool) option" where
  "flags r = (case r of Inl a \<Rightarrow> None | Inr w \<Rightarrow> Some (init (config w), ready (config w)))"

definition effects :: "abrupt + World \<Rightarrow> effect list" where
  "effects r = (case r of Inl a \<Rightarrow> [] | Inr w \<Rightarrow> trace w)"

text \<open>
  The rendering of a parameter and of a usage string as the specification words them
  (not taken from the code): a required parameter is \<^verbatim>\<open><name: type>\<close>, an optional one
  \<^verbatim>\<open>[name: type]\<close>; the usage is the aliases joined by \<^verbatim>\<open>/\<close>, then the rendered
  parameters joined by single spaces.
\<close>

definition spec_render :: "Param \<Rightarrow> string" where
  "spec_render p =
     (if required p then ''<'' @ p_name p @ '': '' @ p_type p @ ''>''
      else ''['' @ p_name p @ '': '' @ p_type p @ '']'')"

definition spec_usage :: "Command \<Rightarrow> string" where
  "spec_usage c = join_str ''/'' (cmd_name c) @ '' '' @ join_str '' '' (map spec_render (cmd_params c))"

section \<open>Basic facts\<close>

lemmas builtin_commands =
  HelpCommand_def QuitCommand_def SerialSetCommand_def
  SerialCloseCommand_def SerialOpenCommand_def SerialWriteCommand_def

lemmas world_ops = emit_def respond_def fireHook_def

lemma BUILTIN_eq:
  "BUILTIN = [(''help'', HelpCommand), (''quit'', QuitCommand), (''set'', SerialSetCommand),
     (''close'', SerialCloseCommand), (''open'', SerialOpenCommand), (''write'', SerialWriteCommand)]"
  by (simp add: BUILTIN_def registerCommand_def builtin_commands listed_before_def
      array_index_def digit_of_def Let_def)

lemma getNames_BUILTIN:
  "getNames False BUILTIN =
     Inr [''help'', ''h'', ''quit'', ''q'', ''exit'', ''set'', ''close'', ''stop'',
          ''open'', ''start'', ''write'', ''w'', ''send'']"
  by (simp add: BUILTIN_eq getNames_def builtin_commands)

lemma getCommand_BUILTIN:
  "getCommand c BUILTIN =
     (if c \<in> set [''help'', ''h''] then Some HelpCommand
      else if c \<in> set [''quit'', ''q'', ''exit''] then Some QuitCommand
      else if c \<in> set [''set''] then Some SerialSetCommand
      else if c \<in> set [''close'', ''stop''] then Some SerialCloseCommand
      else if c \<in> set [''open'', ''start''] then Some SerialOpenCommand
      else if c \<in> set [''write'', ''w'', ''send''] then Some SerialWriteCommand
      else None)"
  by (simp add: BUILTIN_eq builtin_commands)

lemma COMMANDS_initial: "COMMANDS initial_world = BUILTIN"
  by (simp add: initial_world_def onEvent_def)

lemmas eval_rules =
  process_def process_with_def getNames_BUILTIN getCommand_BUILTIN
  Command_process_def builtin_commands
  SerialSetCommand_handler_def SerialCloseCommand_handler_def SerialOpenCommand_handler_def
  SerialWriteCommand_handler_def HelpCommand_handler_def QuitCommand_handler_def
  new_SerialPort_def openCallback_def writeCallback_def world_ops onEvent_def Let_def
  initial_world_def initial_config_def flags_def effects_def

lemma split_str_not_Nil: "split_str sep s \<noteq> []"
  by (induction s) (auto split: list.splits)

text \<open>The command token of a line is what stands before its first space.\<close>

lemma hd_split_str: "hd (split_str sep s) = takeWhile (\<lambda>c. c \<noteq> sep) s"
  by (induction s) (auto simp add: split_str_not_Nil split: list.splits)

lemma getCommand_Some:
  "getCommand nm reg = Some c \<Longrightarrow> nm \<in> set (cmd_name c) \<and> c \<in> snd ` set reg"
  by (induction reg) (auto split: if_splits)

lemma getCommand_None:
  "getCommand nm reg = None \<longleftrightarrow> (\<forall>(k, c) \<in> set reg. nm \<notin> set (cmd_name c))"
  by (induction reg) (auto split: if_splits)

lemma getNames_loop_names:
  "getNames_loop ks reg acc = Inr names \<Longrightarrow>
     set names \<subseteq> set acc \<union> (\<Union>c \<in> snd ` set reg. set (cmd_name c))"
proof (induction ks arbitrary: acc)
  case Nil
  then show ?case by auto
next
  case (Cons k ks)
  then obtain c where c: "getCommand k reg = Some c"
    by (auto split: option.splits)
  with Cons.prems have "getNames_loop ks reg (acc @ cmd_name c) = Inr names"
    by simp
  from Cons.IH [OF this] getCommand_Some [OF c] show ?case
    by auto
qed

lemma getNames_loop_total:
  "\<forall>k \<in> set ks. getCommand k reg \<noteq> None \<Longrightarrow> \<exists>names. getNames_loop ks reg acc = Inr names"
  by (induction ks arbitrary: acc) auto

lemma keyed_getCommand:
  assumes "\<forall>(k, c) \<in> set reg. k \<in> set (cmd_name c)"
  shows "\<forall>k \<in> set (map fst reg). getCommand k reg \<noteq> None"
proof
  fix k
  assume "k \<in> set (map fst reg)"
  then obtain c where kc: "(k, c) \<in> set reg"
    by auto
  with assms have "k \<in> set (cmd_name c)"
    by auto
  with kc show "getCommand k reg \<noteq> None"
    by (auto simp add: getCommand_None)
qed

text \<open>
  Registering commands that have a name keeps every key among the names of its command,
  so every key resolves and \<^verbatim>\<open>getNames\<close> returns.
\<close>

lemma assign_keyed:
  "\<forall>(k, c) \<in> set reg. k \<in> set (cmd_name c) \<Longrightarrow> k' \<in> set (cmd_name c') \<Longrightarrow>
     \<forall>(k, c) \<in> set (assign k' c' reg). k \<in> set (cmd_name c)"
  by (induction reg) (auto split: if_splits)

lemma registerCommand_keyed:
  assumes "\<forall>(k, c) \<in> set reg. k \<in> set (cmd_name c)" and "cmd_name command \<noteq> []"
  shows "\<forall>(k, c) \<in> set (registerCommand command reg). k \<in> set (cmd_name c)"
proof (cases "template (index0 (cmd_name command)) = ''__proto__''")
  case True
  with assms(1) show ?thesis
    by (simp add: registerCommand_def)
next
  case False
  from assms(2) have "template (index0 (cmd_name command)) \<in> set (cmd_name command)"
    by (auto simp add: neq_Nil_conv)
  from assign_keyed [OF assms(1) this] False show ?thesis
    by (simp add: registerCommand_def)
qed

lemma BUILTIN_keyed: "\<forall>(k, c) \<in> set BUILTIN. k \<in> set (cmd_name c)"
  by (simp add: BUILTIN_eq builtin_commands)

lemma fireHook_loop_filter:
  "fireHook_loop nm d hs = map (\<lambda>h. HookCall (callback h) d) (filter (\<lambda>h. hook h = nm) hs)"
  by (induction hs) auto

lemma subscribe_all_HOOKS:
  "HOOKS (subscribe_all subs w) = HOOKS w @ map (\<lambda>(ev, cb). \<lparr>hook = ev, callback = cb\<rparr>) subs"
  unfolding subscribe_all_def
  by (induction subs arbitrary: w) (auto simp add: onEvent_def)

lemma subscribe_all_trace: "trace (subscribe_all subs w) = trace w"
  unfolding subscribe_all_def
  by (induction subs arbitrary: w) (auto simp add: onEvent_def)

lemma toSting_loop_map: "toSting_loop ps array = array @ map spec_render ps"
  by (induction ps arbitrary: array) (auto simp add: spec_render_def)

lemma toSting_render: "toSting ps = join_str '' '' (map spec_render ps)"
  by (simp add: toSting_def toSting_loop_map)


section \<open>The set command\<close>

text \<open>
  Claim C1, as the code has it. Every invocation of the set command whose device
  argument is present and not the empty string succeeds with status 0: it sets the
  \<^verbatim>\<open>init\<close> flag of the context to true, stores the device, constructs a new transport
  handle bound to the device (9600 baud, not opened), publishes the \<^verbatim>\<open>set\<close> hook, that
  is, calls every listener registered under \<^verbatim>\<open>set\<close>, in registration order, with the
  argument list as payload, and then responds. The \<^verbatim>\<open>ready\<close> flag is not written: it
  keeps the value it had, so it is false after the call only when it was false before.
  With no argument, or with the empty string as the device, the constructor of the
  transport throws and there is neither hook nor response.
\<close>

theorem SerialSetCommand_sets_device:
  "(dev \<noteq> [] \<longrightarrow>
      run_handler SerialSetHandler nm w (dev # rest) =
        Inr (w\<lparr>config := \<lparr>init = True, ready = ready (config w), device = Str dev,
                           port = \<lparr>path = Str dev, baudRate = 9600, autoOpen = False\<rparr>\<rparr>,
              trace := trace w
                @ [NewSerialPort \<lparr>path = Str dev, baudRate = 9600, autoOpen = False\<rparr>]
                @ map (\<lambda>h. HookCall (callback h) (DataArray (dev # rest)))
                    (filter (\<lambda>h. hook h = ''set'') (HOOKS w))
                @ [Callback \<lparr>name = nm, status = 0,
                             data = [''Set serial device to ['' @ dev @ '']'']\<rparr>]\<rparr>))
   \<and> run_handler SerialSetHandler nm w ([] # rest) = Inl TypeError
   \<and> run_handler SerialSetHandler nm w [] = Inl TypeError"
proof (intro conjI impI)
  assume "dev \<noteq> []"
  then obtain c cs where dev: "dev = c # cs"
    by (cases dev) auto
  show "run_handler SerialSetHandler nm w (dev # rest) =
        Inr (w\<lparr>config := \<lparr>init = True, ready = ready (config w), device = Str dev,
                           port = \<lparr>path = Str dev, baudRate = 9600, autoOpen = False\<rparr>\<rparr>,
              trace := trace w
                @ [NewSerialPort \<lparr>path = Str dev, baudRate = 9600, autoOpen = False\<rparr>]
                @ map (\<lambda>h. HookCall (callback h) (DataArray (dev # rest)))
                    (filter (\<lambda>h. hook h = ''set'') (HOOKS w))
                @ [Callback \<lparr>name = nm, status = 0,
                             data = [''Set serial device to ['' @ dev @ '']'']\<rparr>]\<rparr>)"
    unfolding dev
    by (cases w, cases "config w")
      (simp add: SerialSetCommand_handler_def new_SerialPort_def world_ops Let_def
        fireHook_loop_filter)
next
  show "run_handler SerialSetHandler nm w ([] # rest) = Inl TypeError"
    by (simp add: SerialSetCommand_handler_def new_SerialPort_def)
  show "run_handler SerialSetHandler nm w [] = Inl TypeError"
    by (simp add: SerialSetCommand_handler_def new_SerialPort_def)
qed

text \<open>
  The theorem at the line \<^verbatim>\<open>set COM3 fast\<close>, in the initial state with two listeners
  subscribed to \<^verbatim>\<open>set\<close> and one to \<^verbatim>\<open>open\<close>: the two are called in order with both
  arguments, between the construction of the handle and the response, in the handler
  and in the run that makes the three subscriptions and then reads the line. The lines
  \<^verbatim>\<open>set\<close> and \<^verbatim>\<open>set\<close> followed by a space raise.
\<close>

theorem SerialSetCommand_sets_device_witness:
  "process ''set COM3 fast''
     (subscribe_all [(''set'', Listener 1), (''open'', Listener 2), (''set'', Listener 3)]
        initial_world) =
     Inr ((subscribe_all [(''set'', Listener 1), (''open'', Listener 2), (''set'', Listener 3)]
        initial_world)
          \<lparr>config := \<lparr>init = True, ready = False, device = Str ''COM3'',
                        port = \<lparr>path = Str ''COM3'', baudRate = 9600, autoOpen = False\<rparr>\<rparr>,
           trace := [NewSerialPort \<lparr>path = Str ''COM3'', baudRate = 9600, autoOpen = False\<rparr>,
                     HookCall (Listener 1) (DataArray [''COM3'', ''fast'']),
                     HookCall (Listener 3) (DataArray [''COM3'', ''fast'']),
                     Callback \<lparr>name = Str ''set'', status = 0,
                               data = [''Set serial device to [COM3]'']\<rparr>]\<rparr>)
   \<and> effects (run [Subscribes ''set'' (Listener 1), Subscribes ''open'' (Listener 2),
                    Subscribes ''set'' (Listener 3), Line ''set COM3 fast''] initial_world) =
       [NewSerialPort \<lparr>path = Str ''COM3'', baudRate = 9600, autoOpen = False\<rparr>,
        HookCall (Listener 1) (DataArray [''COM3'', ''fast'']),
        HookCall (Listener 3) (DataArray [''COM3'', ''fast'']),
        Callback \<lparr>name = Str ''set'', status = 0, data = [''Set serial device to [COM3]'']\<rparr>]
   \<and> process ''set'' initial_world = Inl TypeError
   \<and> process ''set '' initial_world = Inl TypeError"
proof -
  let ?w = "subscribe_all [(''set'', Listener 1), (''open'', Listener 2), (''set'', Listener 3)]
        initial_world"
  have w: "COMMANDS ?w = BUILTIN" "trace ?w = []" "ready (config ?w) = False"
    "HOOKS ?w = [\<lparr>hook = ''read'', callback = Listener 0\<rparr>,
                 \<lparr>hook = ''set'', callback = Listener 1\<rparr>,
                 \<lparr>hook = ''open'', callback = Listener 2\<rparr>,
                 \<lparr>hook = ''set'', callback = Listener 3\<rparr>]"
    by (simp_all add: subscribe_all_def onEvent_def initial_world_def initial_config_def)
  have disp: "process (''set'' @ CHR '' '' # a) v =
      run_handler SerialSetHandler (Str ''set'') v (split_str CHR '' '' a)"
    if "COMMANDS v = BUILTIN" for a v
    using that
    by (cases "split_str CHR '' '' a")
      (simp_all add: process_def process_with_def getNames_BUILTIN getCommand_BUILTIN
        Command_process_def SerialSetCommand_def)
  have bare: "process ''set'' v = run_handler SerialSetHandler (Str ''set'') v []"
    if "COMMANDS v = BUILTIN" for v
    using that
    by (simp add: process_def process_with_def getNames_BUILTIN getCommand_BUILTIN
        Command_process_def SerialSetCommand_def)
  from SerialSetCommand_sets_device [where nm = "Str ''set''" and w = ?w
      and dev = "''COM3''" and rest = "[''fast'']"]
  have one: "process ''set COM3 fast'' ?w =
     Inr (?w\<lparr>config := \<lparr>init = True, ready = False, device = Str ''COM3'',
                        port = \<lparr>path = Str ''COM3'', baudRate = 9600, autoOpen = False\<rparr>\<rparr>,
           trace := [NewSerialPort \<lparr>path = Str ''COM3'', baudRate = 9600, autoOpen = False\<rparr>,
                     HookCall (Listener 1) (DataArray [''COM3'', ''fast'']),
                     HookCall (Listener 3) (DataArray [''COM3'', ''fast'']),
                     Callback \<lparr>name = Str ''set'', status = 0,
                               data = [''Set serial device to [COM3]'']\<rparr>]\<rparr>)"
    using disp [OF w(1), of "''COM3 fast''"] w
    by simp
  from SerialSetCommand_sets_device [where nm = "Str ''set''" and w = initial_world
      and rest = "[]"]
  have two: "process ''set'' initial_world = Inl TypeError"
    and three: "process ''set '' initial_world = Inl TypeError"
    using bare [OF COMMANDS_initial] disp [OF COMMANDS_initial, of "[]"]
    by simp_all
  have four: "effects (run [Subscribes ''set'' (Listener 1), Subscribes ''open'' (Listener 2),
                    Subscribes ''set'' (Listener 3), Line ''set COM3 fast''] initial_world) =
       [NewSerialPort \<lparr>path = Str ''COM3'', baudRate = 9600, autoOpen = False\<rparr>,
        HookCall (Listener 1) (DataArray [''COM3'', ''fast'']),
        HookCall (Listener 3) (DataArray [''COM3'', ''fast'']),
        Callback \<lparr>name = Str ''set'', status = 0, data = [''Set serial device to [COM3]'']\<rparr>]"
    by (simp add: eval_rules)
  from one two three four show ?thesis
    by simp
qed

text \<open>
  Claim C1 as stated fails where the connection is open. After \<^verbatim>\<open>set COM3\<close>,
  \<^verbatim>\<open>open\<close> and a successful completion of the opening both flags are true; a further
  \<^verbatim>\<open>set COM4\<close> leaves \<^verbatim>\<open>ready\<close> true, where the claim says it sets it to false.
\<close>

theorem SerialSetCommand_ready_counterexample:
  "flags (run [Line ''set COM3'', Line ''open'', Completes 0 None] initial_world)
     = Some (True, True)
   \<and> flags (run [Line ''set COM3'', Line ''open'', Completes 0 None, Line ''set COM4'']
              initial_world)
     = Some (True, True)"
  by (simp add: eval_rules)

section \<open>Dispatch of an unknown command\<close>

text \<open>
  Claim C2. The registry is any registry in which every key is one of the names of its
  command, as registration of commands that have a name makes it (\<open>registerCommand_keyed\<close>,
  \<open>BUILTIN_keyed\<close>). For every input line whose first token, the piece before the
  first space, is not a name of any registered command (the empty line has the empty
  string as its token), dispatch calls the response callback exactly once, with the
  response \<^verbatim>\<open>{name: null, status: 1, data: ["Error: No Command"]}\<close>, and changes nothing
  else. No handler is invoked: the result is the same whatever invoking a handler does.
\<close>

theorem process_unknown_command:
  assumes keyed: "\<forall>(k, c) \<in> set (COMMANDS w). k \<in> set (cmd_name c)"
    and unknown: "\<forall>(k, c) \<in> set (COMMANDS w). hd (split_str CHR '' '' line) \<notin> set (cmd_name c)"
  shows "process_with invoke line w =
     Inr (w\<lparr>trace := trace w
           @ [Callback \<lparr>name = Null, status = 1, data = [''Error: No Command'']\<rparr>]\<rparr>)"
proof -
  obtain cmd params where sp: "split_str CHR '' '' line = cmd # params"
    using split_str_not_Nil [of "CHR '' ''" line] by (cases "split_str CHR '' '' line") auto
  obtain names where names: "getNames False (COMMANDS w) = Inr names"
    using getNames_loop_total [OF keyed_getCommand [OF keyed]] by (auto simp add: getNames_def)
  then have "set names \<subseteq> (\<Union>c \<in> snd ` set (COMMANDS w). set (cmd_name c))"
    using getNames_loop_names [of "map fst (COMMANDS w)" "COMMANDS w" "[]" names]
    by (simp add: getNames_def)
  with unknown sp have "cmd \<notin> set names"
    by fastforce
  with sp names show ?thesis
    by (simp add: process_with_def ERR_NOCMD_def genResponse_def world_ops)
qed

text \<open>The theorem at the empty line and at the line \<^verbatim>\<open>frobnicate 1 2\<close>, in the initial state.\<close>

theorem process_unknown_command_witness:
  "process [] initial_world =
     Inr (initial_world\<lparr>trace :=
       [Callback \<lparr>name = Null, status = 1, data = [''Error: No Command'']\<rparr>]\<rparr>)
   \<and> process ''frobnicate 1 2'' initial_world =
     Inr (initial_world\<lparr>trace :=
       [Callback \<lparr>name = Null, status = 1, data = [''Error: No Command'']\<rparr>]\<rparr>)"
proof -
  have keyed: "\<forall>(k, c) \<in> set (COMMANDS initial_world). k \<in> set (cmd_name c)"
    by (simp add: COMMANDS_initial BUILTIN_keyed)
  have empty: "\<forall>(k, c) \<in> set (COMMANDS initial_world).
      hd (split_str CHR '' '' []) \<notin> set (cmd_name c)"
    by (simp add: COMMANDS_initial BUILTIN_eq builtin_commands)
  have frob: "\<forall>(k, c) \<in> set (COMMANDS initial_world).
      hd (split_str CHR '' '' ''frobnicate 1 2'') \<notin> set (cmd_name c)"
    by (simp add: COMMANDS_initial BUILTIN_eq builtin_commands)
  have "trace initial_world = []"
    by (simp add: initial_world_def onEvent_def)
  with process_unknown_command [OF keyed empty, of run_handler]
    process_unknown_command [OF keyed frob, of run_handler]
  show ?thesis
    by (simp add: process_def)
qed


section \<open>The open command\<close>

text \<open>
  Claim C3. For every invocation of the open command: if \<^verbatim>\<open>init\<close> is false it responds
  with status 2, "No serial device set!"; otherwise, if \<^verbatim>\<open>ready\<close> is already true, it
  responds with status 2, "Already started!" (so whenever \<^verbatim>\<open>ready\<close> is true the status
  is 2); otherwise it asks the transport to open, keeps the callback for the completion
  and leaves the context as it is. When the transport reports an error to that callback,
  the response has status 1 and carries the message of the error, and nothing but the
  trace changes, so \<^verbatim>\<open>ready\<close> stays false. When it reports success, \<^verbatim>\<open>ready\<close> is set to
  true, the \<^verbatim>\<open>open\<close> hook is published, that is, every listener registered under
  \<^verbatim>\<open>open\<close> is called, in registration order, with the arguments of the command as
  payload, and then the response has status 0.
\<close>

theorem SerialOpenCommand_cases:
  "(init (config w) = False \<longrightarrow>
      run_handler SerialOpenHandler nm w args =
        Inr (respond \<lparr>name = nm, status = 2, data = [''No serial device set!'']\<rparr> w))
   \<and> (init (config w) \<and> ready (config w) \<longrightarrow>
      run_handler SerialOpenHandler nm w args =
        Inr (respond \<lparr>name = nm, status = 2, data = [''Already started!'']\<rparr> w))
   \<and> (ready (config w) \<longrightarrow>
      run_handler SerialOpenHandler nm w args =
        Inr (respond \<lparr>name = nm, status = 2,
               data = [if init (config w) then ''Already started!''
                       else ''No serial device set!'']\<rparr> w))
   \<and> (init (config w) \<and> \<not> ready (config w) \<longrightarrow>
      run_handler SerialOpenHandler nm w args =
        Inr (w\<lparr>pending := pending w @ [OpenCallback nm args],
              trace := trace w @ [PortOpen (port (config w)),
                                  PortOn (port (config w)) ''error'',
                                  PortOn (port (config w)) ''data'']\<rparr>))
   \<and> openCallback nm args (Some message) w =
        w\<lparr>trace := trace w
             @ [Callback \<lparr>name = nm, status = 1, data = [''Error on connection!'', message]\<rparr>]\<rparr>
   \<and> (\<not> ready (config w) \<longrightarrow> \<not> ready (config (openCallback nm args (Some message) w)))
   \<and> openCallback nm args None w =
        w\<lparr>config := (config w)\<lparr>ready := True\<rparr>,
          trace := trace w
             @ map (\<lambda>h. HookCall (callback h) (DataArray args))
                 (filter (\<lambda>h. hook h = ''open'') (HOOKS w))
             @ [Callback \<lparr>name = nm, status = 0,
                  data = [''Connection to ['' @ template (device (config w)) @ ''] opened!'']\<rparr>]\<rparr>"
  by (auto simp add: SerialOpenCommand_handler_def openCallback_def world_ops Let_def
      fireHook_loop_filter)

text \<open>
  The theorem on states reached from the initial one: \<^verbatim>\<open>open\<close> before any \<^verbatim>\<open>set\<close>; a
  second \<^verbatim>\<open>open\<close> once the connection is open; an opening that fails with the message
  \<^verbatim>\<open>busy\<close>; an opening by the line \<^verbatim>\<open>open now\<close> that succeeds, with two listeners on
  \<^verbatim>\<open>open\<close> and one on \<^verbatim>\<open>close\<close>: the two are called in order with the argument list
  of the command, before the response.
\<close>

theorem SerialOpenCommand_cases_witness:
  "run_handler SerialOpenHandler (Str ''open'') initial_world [] =
     Inr (respond \<lparr>name = Str ''open'', status = 2, data = [''No serial device set!'']\<rparr>
            initial_world)
   \<and> run_handler SerialOpenHandler (Str ''open'')
        (initial_world\<lparr>config := (config initial_world)\<lparr>init := True, ready := True\<rparr>\<rparr>) [] =
     Inr (respond \<lparr>name = Str ''open'', status = 2, data = [''Already started!'']\<rparr>
            (initial_world\<lparr>config := (config initial_world)\<lparr>init := True, ready := True\<rparr>\<rparr>))
   \<and> run_handler SerialOpenHandler (Str ''open'')
        (initial_world\<lparr>config := (config initial_world)\<lparr>init := True\<rparr>\<rparr>) [] =
     Inr (initial_world\<lparr>config := (config initial_world)\<lparr>init := True\<rparr>,
            pending := [OpenCallback (Str ''open'') []],
            trace := [PortOpen (port initial_config), PortOn (port initial_config) ''error'',
                      PortOn (port initial_config) ''data'']\<rparr>)
   \<and> \<not> ready (config (openCallback (Str ''open'') [] (Some ''busy'') initial_world))
   \<and> trace (openCallback (Str ''open'') [''now''] None
        (subscribe_all [(''open'', Listener 1), (''close'', Listener 2), (''open'', Listener 3)]
           initial_world)) =
       [HookCall (Listener 1) (DataArray [''now'']),
        HookCall (Listener 3) (DataArray [''now'']),
        Callback \<lparr>name = Str ''open'', status = 0, data = [''Connection to [] opened!'']\<rparr>]
   \<and> effects (run [Line ''set COM3'', Line ''open'', Completes 0 (Some ''busy'')] initial_world) =
       [NewSerialPort \<lparr>path = Str ''COM3'', baudRate = 9600, autoOpen = False\<rparr>,
        Callback \<lparr>name = Str ''set'', status = 0, data = [''Set serial device to [COM3]'']\<rparr>,
        PortOpen \<lparr>path = Str ''COM3'', baudRate = 9600, autoOpen = False\<rparr>,
        PortOn \<lparr>path = Str ''COM3'', baudRate = 9600, autoOpen = False\<rparr> ''error'',
        PortOn \<lparr>path = Str ''COM3'', baudRate = 9600, autoOpen = False\<rparr> ''data'',
        Callback \<lparr>name = Str ''open'', status = 1, data = [''Error on connection!'', ''busy'']\<rparr>]
   \<and> flags (run [Line ''set COM3'', Line ''open'', Completes 0 (Some ''busy'')] initial_world) =
       Some (True, False)
   \<and> effects (run [Subscribes ''open'' (Listener 1), Subscribes ''close'' (Listener 2),
                    Subscribes ''open'' (Listener 3), Line ''set COM3'', Line ''open now'',
                    Completes 0 None] initial_world) =
       [NewSerialPort \<lparr>path = Str ''COM3'', baudRate = 9600, autoOpen = False\<rparr>,
        Callback \<lparr>name = Str ''set'', status = 0, data = [''Set serial device to [COM3]'']\<rparr>,
        PortOpen \<lparr>path = Str ''COM3'', baudRate = 9600, autoOpen = False\<rparr>,
        PortOn \<lparr>path = Str ''COM3'', baudRate = 9600, autoOpen = False\<rparr> ''error'',
        PortOn \<lparr>path = Str ''COM3'', baudRate = 9600, autoOpen = False\<rparr> ''data'',
        HookCall (Listener 1) (DataArray [''now'']),
        HookCall (Listener 3) (DataArray [''now'']),
        Callback \<lparr>name = Str ''open'', status = 0, data = [''Connection to [COM3] opened!'']\<rparr>]
   \<and> flags (run [Subscribes ''open'' (Listener 1), Subscribes ''close'' (Listener 2),
                  Subscribes ''open'' (Listener 3), Line ''set COM3'', Line ''open now'',
                  Completes 0 None] initial_world) = Some (True, True)"
proof -
  let ?started = "initial_world\<lparr>config := (config initial_world)\<lparr>init := True, ready := True\<rparr>\<rparr>"
  let ?configured = "initial_world\<lparr>config := (config initial_world)\<lparr>init := True\<rparr>\<rparr>"
  let ?listened = "subscribe_all
    [(''open'', Listener 1), (''close'', Listener 2), (''open'', Listener 3)] initial_world"
  have closed: "init (config initial_world) = False" "\<not> ready (config initial_world)"
    by (simp_all add: initial_world_def initial_config_def onEvent_def)
  have started: "init (config ?started) \<and> ready (config ?started)"
    by simp
  have configured: "init (config ?configured) \<and> \<not> ready (config ?configured)"
    by (simp add: initial_world_def initial_config_def onEvent_def)
  from SerialOpenCommand_cases [where w = initial_world and nm = "Str ''open''" and args = "[]"
      and message = "''busy''"] closed
  have one: "run_handler SerialOpenHandler (Str ''open'') initial_world [] =
     Inr (respond \<lparr>name = Str ''open'', status = 2, data = [''No serial device set!'']\<rparr>
            initial_world)"
    and four: "\<not> ready (config (openCallback (Str ''open'') [] (Some ''busy'') initial_world))"
    by blast+
  from SerialOpenCommand_cases [where w = ?started and nm = "Str ''open''" and args = "[]"] started
  have two: "run_handler SerialOpenHandler (Str ''open'') ?started [] =
     Inr (respond \<lparr>name = Str ''open'', status = 2, data = [''Already started!'']\<rparr> ?started)"
    by blast
  from SerialOpenCommand_cases [where w = ?configured and nm = "Str ''open''" and args = "[]"]
    configured
  have "run_handler SerialOpenHandler (Str ''open'') ?configured [] =
        Inr (?configured\<lparr>pending := pending ?configured @ [OpenCallback (Str ''open'') []],
              trace := trace ?configured @ [PortOpen (port (config ?configured)),
                                  PortOn (port (config ?configured)) ''error'',
                                  PortOn (port (config ?configured)) ''data'']\<rparr>)"
    by blast
  then have three: "run_handler SerialOpenHandler (Str ''open'') ?configured [] =
     Inr (initial_world\<lparr>config := (config initial_world)\<lparr>init := True\<rparr>,
            pending := [OpenCallback (Str ''open'') []],
            trace := [PortOpen (port initial_config), PortOn (port initial_config) ''error'',
                      PortOn (port initial_config) ''data'']\<rparr>)"
    by (simp add: initial_world_def onEvent_def)
  from SerialOpenCommand_cases [where w = ?listened and nm = "Str ''open''"
      and args = "[''now'']"]
  have "openCallback (Str ''open'') [''now''] None ?listened =
        ?listened\<lparr>config := (config ?listened)\<lparr>ready := True\<rparr>,
          trace := trace ?listened
             @ map (\<lambda>h. HookCall (callback h) (DataArray [''now'']))
                 (filter (\<lambda>h. hook h = ''open'') (HOOKS ?listened))
             @ [Callback \<lparr>name = Str ''open'', status = 0,
                  data = [''Connection to ['' @ template (device (config ?listened))
                          @ ''] opened!'']\<rparr>]\<rparr>"
    by blast
  then have five: "trace (openCallback (Str ''open'') [''now''] None ?listened) =
       [HookCall (Listener 1) (DataArray [''now'']),
        HookCall (Listener 3) (DataArray [''now'']),
        Callback \<lparr>name = Str ''open'', status = 0, data = [''Connection to [] opened!'']\<rparr>]"
    by (simp add: subscribe_all_def onEvent_def initial_world_def initial_config_def)
  show ?thesis
    by (intro conjI one two three four five) (simp_all add: eval_rules)
qed

section \<open>The close command\<close>

text \<open>
  Claim C4. For every invocation of the close command: if \<^verbatim>\<open>init\<close> and \<^verbatim>\<open>ready\<close> are
  both true, it sets both to false, closes the transport, publishes the \<^verbatim>\<open>close\<close> hook
  with an empty payload and responds with status 0; in every other state it responds with
  status 2, "Already closed!", and the context, the hooks and the pending callbacks are
  as they were.
\<close>

theorem SerialCloseCommand_cases:
  "(init (config w) \<and> ready (config w) \<longrightarrow>
      run_handler SerialCloseHandler nm w args =
        Inr (w\<lparr>config := (config w)\<lparr>ready := False, init := False\<rparr>,
              trace := trace w
                @ [PortClose (port (config w))]
                @ fireHook_loop ''close'' (DataArray []) (HOOKS w)
                @ [Callback \<lparr>name = nm, status = 0,
                     data = [''Closed serial device connection to ['' @ template (device (config w))
                             @ '']. Please run set and start again!'']\<rparr>]\<rparr>))
   \<and> (\<not> (init (config w) \<and> ready (config w)) \<longrightarrow>
      run_handler SerialCloseHandler nm w args =
        Inr (w\<lparr>trace := trace w
                @ [Callback \<lparr>name = nm, status = 2, data = [''Already closed!'']\<rparr>]\<rparr>))"
  by (auto simp add: SerialCloseCommand_handler_def world_ops Let_def)

text \<open>
  The theorem in the initial state, and in a state with both flags true and a listener
  on \<^verbatim>\<open>close\<close>.
\<close>

theorem SerialCloseCommand_cases_witness:
  "run_handler SerialCloseHandler (Str ''close'') initial_world [] =
     Inr (initial_world\<lparr>trace :=
       [Callback \<lparr>name = Str ''close'', status = 2, data = [''Already closed!'']\<rparr>]\<rparr>)
   \<and> run_handler SerialCloseHandler (Str ''close'')
        (onEvent ''close'' (Listener 1)
           (initial_world\<lparr>config := (config initial_world)\<lparr>init := True, ready := True\<rparr>\<rparr>)) [] =
     Inr (onEvent ''close'' (Listener 1)
           (initial_world\<lparr>config := (config initial_world)\<lparr>init := False, ready := False\<rparr>,
              trace := [PortClose (port initial_config),
                        HookCall (Listener 1) (DataArray []),
                        Callback \<lparr>name = Str ''close'', status = 0,
                          data = [''Closed serial device connection to []. Please run set and start again!'']\<rparr>]\<rparr>))"
  using SerialCloseCommand_cases [where w = initial_world and nm = "Str ''close''" and args = "[]"]
    SerialCloseCommand_cases [where w = "onEvent ''close'' (Listener 1)
           (initial_world\<lparr>config := (config initial_world)\<lparr>init := True, ready := True\<rparr>\<rparr>)"
      and nm = "Str ''close''" and args = "[]"]
  by (simp add: initial_world_def initial_config_def onEvent_def)

section \<open>The write command\<close>

text \<open>
  Claim C5, evaluated on the code. With a listener on \<^verbatim>\<open>write\<close>, after \<^verbatim>\<open>set COM3\<close>,
  \<^verbatim>\<open>open\<close> and a successful opening, the line \<^verbatim>\<open>write a b\<close> passes the string
  \<^verbatim>\<open>a b\<close> to the write operation of the transport, and on success the response has
  status 0. The \<^verbatim>\<open>write\<close> hook is published with that string itself as its data: the
  listener is never called with an array containing the message.
\<close>

theorem SerialWriteCommand_hook_payload:
  "effects (run [Subscribes ''write'' (Listener 1), Line ''set COM3'', Line ''open'',
                 Completes 0 None, Line ''write a b'', Completes 0 None] initial_world) =
     [NewSerialPort \<lparr>path = Str ''COM3'', baudRate = 9600, autoOpen = False\<rparr>,
      Callback \<lparr>name = Str ''set'', status = 0, data = [''Set serial device to [COM3]'']\<rparr>,
      PortOpen \<lparr>path = Str ''COM3'', baudRate = 9600, autoOpen = False\<rparr>,
      PortOn \<lparr>path = Str ''COM3'', baudRate = 9600, autoOpen = False\<rparr> ''error'',
      PortOn \<lparr>path = Str ''COM3'', baudRate = 9600, autoOpen = False\<rparr> ''data'',
      Callback \<lparr>name = Str ''open'', status = 0, data = [''Connection to [COM3] opened!'']\<rparr>,
      PortWrite \<lparr>path = Str ''COM3'', baudRate = 9600, autoOpen = False\<rparr> ''a b'',
      HookCall (Listener 1) (DataString ''a b''),
      Callback \<lparr>name = Str ''write'', status = 0, data = [''Message [a b] sent!'']\<rparr>]
   \<and> HookCall (Listener 1) (DataArray [''a b''])
       \<notin> set (effects (run [Subscribes ''write'' (Listener 1), Line ''set COM3'', Line ''open'',
                 Completes 0 None, Line ''write a b'', Completes 0 None] initial_world))"
  by (simp add: eval_rules)




section \<open>The hook bus delivers by name, in registration order\<close>

text \<open>
  Claim C6. For every event name, every payload and every sequence of subscriptions made
  in any state, firing a hook calls the listeners already registered under that name, and
  then exactly those of the new subscriptions whose event name equals the fired name, in
  registration order, each with the payload; a listener registered under another name is
  not called, and a subscription made twice is called twice. Nothing but the trace
  changes.
\<close>

theorem fireHook_delivery:
  "fireHook nm d (subscribe_all subs w) =
     (subscribe_all subs w)\<lparr>trace := trace w
        @ fireHook_loop nm d (HOOKS w)
        @ map (\<lambda>(ev, cb). HookCall cb d) (filter (\<lambda>(ev, cb). ev = nm) subs)\<rparr>"
proof -
  have "fireHook_loop nm d (map (\<lambda>(ev, cb). \<lparr>hook = ev, callback = cb\<rparr>) subs) =
      map (\<lambda>(ev, cb). HookCall cb d) (filter (\<lambda>(ev, cb). ev = nm) subs)"
    by (induction subs) auto
  then show ?thesis
    by (simp add: fireHook_def subscribe_all_HOOKS subscribe_all_trace fireHook_loop_filter)
qed

text \<open>
  The theorem in the initial state, whose one listener is on \<^verbatim>\<open>read\<close>: two listeners
  on \<^verbatim>\<open>open\<close>, one of them subscribed twice, and one on \<^verbatim>\<open>close\<close>; firing
  \<^verbatim>\<open>open\<close>, and firing a name nobody subscribed to.
\<close>

theorem fireHook_delivery_witness:
  "trace (fireHook ''open'' (DataArray [''x''])
       (subscribe_all [(''open'', Listener 1), (''close'', Listener 2), (''open'', Listener 3),
                       (''open'', Listener 1)] initial_world)) =
     [HookCall (Listener 1) (DataArray [''x'']), HookCall (Listener 3) (DataArray [''x'']),
      HookCall (Listener 1) (DataArray [''x''])]
   \<and> trace (fireHook ''error'' (DataArray [''x''])
       (subscribe_all [(''open'', Listener 1), (''close'', Listener 2)] initial_world)) = []"
  using fireHook_delivery [where nm = "''open''" and d = "DataArray [''x'']" and w = initial_world
      and subs = "[(''open'', Listener 1), (''close'', Listener 2), (''open'', Listener 3),
                       (''open'', Listener 1)]"]
    fireHook_delivery [where nm = "''error''" and d = "DataArray [''x'']" and w = initial_world
      and subs = "[(''open'', Listener 1), (''close'', Listener 2)]"]
  by (simp add: initial_world_def onEvent_def)

section \<open>The invariant of the connection context\<close>

text \<open>
  Claim C7, as the code has it. The invariant holds in the initial state. Every handler
  that returns keeps it, on its error branches too, and so do the callback of a write,
  whatever the transport reports, and the callback of an opening when the transport
  reports an error. The callback of an opening that succeeded sets \<^verbatim>\<open>ready\<close> without
  reading \<^verbatim>\<open>init\<close>: it establishes the invariant when \<^verbatim>\<open>init\<close> is true in the state
  in which the transport calls it.
\<close>

theorem invariant_preserved:
  "invariant initial_config
   \<and> (\<forall>h nm args w w'. invariant (config w) \<and> run_handler h nm w args = Inr w'
         \<longrightarrow> invariant (config w'))
   \<and> (\<forall>nm msg err w. invariant (config w) \<longrightarrow> invariant (config (writeCallback nm msg err w)))
   \<and> (\<forall>nm args message w. invariant (config w)
         \<longrightarrow> invariant (config (openCallback nm args (Some message) w)))
   \<and> (\<forall>nm args w. init (config w) \<longrightarrow> invariant (config (openCallback nm args None w)))"
proof (intro conjI allI impI)
  show "invariant initial_config"
    by (simp add: invariant_def initial_config_def)
next
  fix h nm args and w w' :: World
  assume "invariant (config w) \<and> run_handler h nm w args = Inr w'"
  then show "invariant (config w')"
    by (cases h)
      (auto simp add: invariant_def HelpCommand_handler_def QuitCommand_handler_def
        SerialSetCommand_handler_def SerialCloseCommand_handler_def SerialOpenCommand_handler_def
        SerialWriteCommand_handler_def world_ops Let_def
        split: js_str.splits option.splits sum.splits if_splits)
next
  fix nm msg err and w :: World
  assume "invariant (config w)"
  then show "invariant (config (writeCallback nm msg err w))"
    by (simp add: writeCallback_def world_ops Let_def split: option.splits)
next
  fix nm args message and w :: World
  assume "invariant (config w)"
  then show "invariant (config (openCallback nm args (Some message) w))"
    by (simp add: openCallback_def world_ops)
next
  fix nm args and w :: World
  assume "init (config w)"
  then show "invariant (config (openCallback nm args None w))"
    by (simp add: openCallback_def world_ops Let_def invariant_def)
qed

text \<open>
  The theorem after \<^verbatim>\<open>set COM3\<close> in the initial state: the handlers of \<^verbatim>\<open>open\<close> and
  \<^verbatim>\<open>close\<close> and the callbacks of an opening, failed or not.
\<close>

theorem invariant_preserved_witness:
  "invariant initial_config
   \<and> invariant (config (initial_world\<lparr>config := (config initial_world)\<lparr>init := True\<rparr>\<rparr>))
   \<and> invariant (config (openCallback (Str ''open'') [] None
        (initial_world\<lparr>config := (config initial_world)\<lparr>init := True\<rparr>\<rparr>)))
   \<and> invariant (config (openCallback (Str ''open'') [] (Some ''busy'')
        (initial_world\<lparr>config := (config initial_world)\<lparr>init := True\<rparr>\<rparr>)))
   \<and> invariant (config (respond \<lparr>name = Str ''close'', status = 2, data = [''Already closed!'']\<rparr>
        (initial_world\<lparr>config := (config initial_world)\<lparr>init := True\<rparr>\<rparr>)))"
proof -
  let ?w = "initial_world\<lparr>config := (config initial_world)\<lparr>init := True\<rparr>\<rparr>"
  have inv: "invariant (config ?w)" and ini: "init (config ?w)"
    by (simp_all add: invariant_def)
  have close: "run_handler SerialCloseHandler (Str ''close'') ?w [] =
      Inr (respond \<lparr>name = Str ''close'', status = 2, data = [''Already closed!'']\<rparr> ?w)"
    by (simp add: SerialCloseCommand_handler_def initial_world_def initial_config_def onEvent_def)
  from invariant_preserved inv ini close show ?thesis
    by blast
qed

text \<open>
  Claim C7 as stated fails at the completion of an opening. Two openings are pending,
  the first on the handle for \<^verbatim>\<open>A\<close>, the second on the handle for \<^verbatim>\<open>B\<close>; the first
  succeeds and \<^verbatim>\<open>close\<close> sets both flags to false, a state in which the invariant holds.
  Then the second opening succeeds: \<^verbatim>\<open>ready\<close> is true and \<^verbatim>\<open>init\<close> is false.
\<close>

theorem invariant_open_completion_counterexample:
  "flags (run [Line ''set A'', Line ''open'', Line ''set B'', Line ''open'', Completes 0 None,
               Line ''close''] initial_world) = Some (False, False)
   \<and> flags (run [Line ''set A'', Line ''open'', Line ''set B'', Line ''open'', Completes 0 None,
               Line ''close'', Completes 0 None] initial_world) = Some (False, True)
   \<and> \<not> invariant (config (openCallback (Str ''open'') [] None initial_world))"
  by (simp add: eval_rules invariant_def)


section \<open>The help command\<close>

text \<open>
  Claim C8. The usage string of a command is its aliases joined by \<^verbatim>\<open>/\<close>, a space, and
  its parameters joined by single spaces, a required one rendered \<^verbatim>\<open><name: type>\<close> and
  an optional one \<^verbatim>\<open>[name: type]\<close>: the code's \<^verbatim>\<open>toSting\<close> and \<^verbatim>\<open>toString\<close> are the
  rendering the specification words. With the built-in registry, help with no argument
  responds with status 0 and one line per primary name, six in all, each with the usage
  string of its command.
\<close>

theorem HelpCommand_lists_usage:
  "toSting ps = join_str '' '' (map spec_render ps)
   \<and> toString c = spec_usage c
   \<and> (COMMANDS w = BUILTIN \<longrightarrow>
        getNames True (COMMANDS w) = Inr [''help'', ''quit'', ''set'', ''close'', ''open'', ''write'']
        \<and> run_handler HelpHandler nm w [] =
          Inr (respond \<lparr>name = nm, status = 0, data =
            [''- Usage for help: help/h [command: string]'',
             ''- Usage for quit: quit/q/exit '',
             ''- Usage for set: set <device: string>'',
             ''- Usage for close: close/stop '',
             ''- Usage for open: open/start '',
             ''- Usage for write: write/w/send <message: string>'']\<rparr> w)
        \<and> run_handler HelpHandler nm w [] =
          Inr (respond \<lparr>name = nm, status = 0, data =
            map (\<lambda>(k, c). ''- Usage for '' @ k @ '': '' @ spec_usage c) BUILTIN\<rparr> w))"
proof (intro conjI impI)
  show "toSting ps = join_str '' '' (map spec_render ps)"
    by (rule toSting_render)
  show "toString c = spec_usage c"
    by (simp add: toString_def spec_usage_def toSting_render)
next
  assume reg: "COMMANDS w = BUILTIN"
  then show "getNames True (COMMANDS w) =
      Inr [''help'', ''quit'', ''set'', ''close'', ''open'', ''write'']"
    by (simp add: getNames_def BUILTIN_eq)
  from reg show lines: "run_handler HelpHandler nm w [] =
          Inr (respond \<lparr>name = nm, status = 0, data =
            [''- Usage for help: help/h [command: string]'',
             ''- Usage for quit: quit/q/exit '',
             ''- Usage for set: set <device: string>'',
             ''- Usage for close: close/stop '',
             ''- Usage for open: open/start '',
             ''- Usage for write: write/w/send <message: string>'']\<rparr> w)"
    by (simp add: HelpCommand_handler_def getNames_def BUILTIN_eq builtin_commands
        toString_def toSting_def)
  have "map (\<lambda>(k, c). ''- Usage for '' @ k @ '': '' @ spec_usage c) BUILTIN =
            [''- Usage for help: help/h [command: string]'',
             ''- Usage for quit: quit/q/exit '',
             ''- Usage for set: set <device: string>'',
             ''- Usage for close: close/stop '',
             ''- Usage for open: open/start '',
             ''- Usage for write: write/w/send <message: string>'']"
    by (simp add: BUILTIN_eq builtin_commands spec_usage_def spec_render_def)
  with lines show "run_handler HelpHandler nm w [] =
          Inr (respond \<lparr>name = nm, status = 0, data =
            map (\<lambda>(k, c). ''- Usage for '' @ k @ '': '' @ spec_usage c) BUILTIN\<rparr> w)"
    by simp
qed

text \<open>The theorem at the lines \<^verbatim>\<open>help\<close> and \<^verbatim>\<open>h\<close> in the initial state.\<close>

theorem HelpCommand_lists_usage_witness:
  "process ''help'' initial_world =
     Inr (initial_world\<lparr>trace := [Callback \<lparr>name = Str ''help'', status = 0, data =
            [''- Usage for help: help/h [command: string]'',
             ''- Usage for quit: quit/q/exit '',
             ''- Usage for set: set <device: string>'',
             ''- Usage for close: close/stop '',
             ''- Usage for open: open/start '',
             ''- Usage for write: write/w/send <message: string>'']\<rparr>]\<rparr>)
   \<and> process ''h'' initial_world = process ''help'' initial_world"
proof -
  have "trace initial_world = []"
    by (simp add: initial_world_def onEvent_def)
  with HelpCommand_lists_usage [where w = initial_world and nm = "Str ''help''"] COMMANDS_initial
  show ?thesis
    by (simp add: process_def process_with_def getNames_BUILTIN getCommand_BUILTIN
        Command_process_def HelpCommand_def world_ops)
qed

text \<open>
  Claim C9. For every invocation of help with an argument token: if the token is a name
  of some registered command, the lookup yields the first such command and the response
  has status 0 and the usage line of that command; if it is a name of no registered
  command, the lookup yields nothing, the read of \<^verbatim>\<open>toString\<close> on the absent command
  raises a \<^verbatim>\<open>TypeError\<close>, and no response is produced.
\<close>

theorem HelpCommand_with_argument:
  "((\<exists>(k, c) \<in> set (COMMANDS w). a \<in> set (cmd_name c)) \<longrightarrow>
      (\<exists>c. getCommand a (COMMANDS w) = Some c \<and> a \<in> set (cmd_name c) \<and> c \<in> snd ` set (COMMANDS w)
         \<and> run_handler HelpHandler nm w (a # rest) =
             Inr (respond \<lparr>name = nm, status = 0,
                            data = [''Usage for '' @ a @ '': '' @ toString c]\<rparr> w)))
   \<and> ((\<forall>(k, c) \<in> set (COMMANDS w). a \<notin> set (cmd_name c)) \<longrightarrow>
      getCommand a (COMMANDS w) = None \<and> run_handler HelpHandler nm w (a # rest) = Inl TypeError)"
proof (intro conjI impI)
  assume "\<exists>(k, c) \<in> set (COMMANDS w). a \<in> set (cmd_name c)"
  then have "getCommand a (COMMANDS w) \<noteq> None"
    by (auto simp add: getCommand_None)
  then obtain c where c: "getCommand a (COMMANDS w) = Some c"
    by auto
  with getCommand_Some [OF c]
  show "\<exists>c. getCommand a (COMMANDS w) = Some c \<and> a \<in> set (cmd_name c) \<and> c \<in> snd ` set (COMMANDS w)
         \<and> run_handler HelpHandler nm w (a # rest) =
             Inr (respond \<lparr>name = nm, status = 0,
                            data = [''Usage for '' @ a @ '': '' @ toString c]\<rparr> w)"
    by (simp add: HelpCommand_handler_def)
next
  assume "\<forall>(k, c) \<in> set (COMMANDS w). a \<notin> set (cmd_name c)"
  then show none: "getCommand a (COMMANDS w) = None"
    by (simp add: getCommand_None)
  then show "run_handler HelpHandler nm w (a # rest) = Inl TypeError"
    by (simp add: HelpCommand_handler_def)
qed

text \<open>
  The theorem in the initial state: \<^verbatim>\<open>help send\<close> resolves the alias \<^verbatim>\<open>send\<close> to
  the write command; \<^verbatim>\<open>help frobnicate\<close> and \<^verbatim>\<open>help\<close> followed by a space (whose
  argument is the empty string) raise.
\<close>

theorem HelpCommand_with_argument_witness:
  "process ''help send'' initial_world =
     Inr (initial_world\<lparr>trace := [Callback \<lparr>name = Str ''help'', status = 0,
            data = [''Usage for send: write/w/send <message: string>'']\<rparr>]\<rparr>)
   \<and> process ''help frobnicate'' initial_world = Inl TypeError
   \<and> process ''help '' initial_world = Inl TypeError"
proof -
  have found: "\<exists>(k, c) \<in> set (COMMANDS initial_world). ''send'' \<in> set (cmd_name c)"
    by (simp add: COMMANDS_initial BUILTIN_eq builtin_commands)
  have frob: "\<forall>(k, c) \<in> set (COMMANDS initial_world). ''frobnicate'' \<notin> set (cmd_name c)"
    by (simp add: COMMANDS_initial BUILTIN_eq builtin_commands)
  have empty: "\<forall>(k, c) \<in> set (COMMANDS initial_world). [] \<notin> set (cmd_name c)"
    by (simp add: COMMANDS_initial BUILTIN_eq builtin_commands)
  have disp: "process (''help'' @ CHR '' '' # a) initial_world =
      run_handler HelpHandler (Str ''help'') initial_world (split_str CHR '' '' a)" for a
    by (cases "split_str CHR '' '' a")
      (simp_all add: process_def process_with_def getNames_BUILTIN getCommand_BUILTIN
        COMMANDS_initial Command_process_def HelpCommand_def)
  have tr: "trace initial_world = []"
    by (simp add: initial_world_def onEvent_def)
  from HelpCommand_with_argument [where w = initial_world and a = "''send''" and rest = "[]"
      and nm = "Str ''help''"] found
  have "run_handler HelpHandler (Str ''help'') initial_world [''send''] =
      Inr (respond \<lparr>name = Str ''help'', status = 0,
             data = [''Usage for send: '' @ toString SerialWriteCommand]\<rparr> initial_world)"
    by (auto simp add: COMMANDS_initial getCommand_BUILTIN)
  then have one: "process ''help send'' initial_world =
     Inr (initial_world\<lparr>trace := [Callback \<lparr>name = Str ''help'', status = 0,
            data = [''Usage for send: write/w/send <message: string>'']\<rparr>]\<rparr>)"
    using disp [of "''send''"] tr
    by (simp add: world_ops toString_def toSting_def SerialWriteCommand_def)
  from HelpCommand_with_argument [where w = initial_world and a = "''frobnicate''" and rest = "[]"
      and nm = "Str ''help''"] frob
  have two: "process ''help frobnicate'' initial_world = Inl TypeError"
    using disp [of "''frobnicate''"] by simp
  from HelpCommand_with_argument [where w = initial_world and a = "[]" and rest = "[]"
      and nm = "Str ''help''"] empty
  have three: "process ''help '' initial_world = Inl TypeError"
    using disp [of "[]"] by simp
  from one two three show ?thesis
    by simp
qed

end
